theory Spec2Isabelle
  imports
    Complex_Main
    "HOL-Library.Multiset"
    "HOL-Library.Sublist"
    "HOL-Library.Char_ord"
    "HOL-Library.List_Lexorder"
begin

section \<open>The F1 dashboard pipeline (hello.py)\<close>

text \<open>
  The program is one script over the pandas library: it loads six tables, joins them into
  two views (\<open>MASTER\<close>, \<open>RESULTS\<close>), filters the views by the selected season and
  driver, and derives the figures it shows. A data frame is modelled as the list of its
  rows, in row order, and a row as a record of the columns the script reads.

  Columns that the script passes through \<open>pd.to_numeric(..., errors="coerce")\<close> are
  kept as raw cells, since their content is what the coercion is about. The other columns
  (the join keys, \<open>round\<close>, \<open>driverRef\<close>, the circuit name) have the types of the data
  model: integers and text. Numbers are real numbers: rounding of floating point and the
  range of 64 bit integers are not part of the model.
\<close>

subsection \<open>Cells and numeric coercion\<close>

text \<open>
  A raw cell holds a number, a text or nothing (\<open>None\<close>/\<open>NaN\<close>). A numeric column after
  coercion holds \<open>real option\<close> values, \<open>None\<close> being \<open>NaN\<close>.
\<close>

datatype cell = Num real | Str string | NA

text \<open>
  \<open>pd.to_numeric(s, errors="coerce")\<close>, cell by cell: a number stays, a text is read by
  the numeric parser and becomes \<open>NaN\<close> where the parser rejects it, a missing cell stays
  missing. The parser of the library is a parameter of the model.
\<close>

definition to_numeric :: "(string \<Rightarrow> real option) \<Rightarrow> cell \<Rightarrow> real option" where
  "to_numeric parse c = (case c of Num v \<Rightarrow> Some v | Str s \<Rightarrow> parse s | NA \<Rightarrow> None)"

text \<open>
  A concrete parser for the closed examples: decimal numerals with an optional sign and an
  optional fraction (\<open>12\<close>, \<open>-3\<close>, \<open>45.60\<close>), which the library's parser reads the
  same way. Anything else is rejected here.
\<close>

definition digit_val :: "char \<Rightarrow> nat option" where
  "digit_val c =
     (let n = (of_char c :: nat)
      in if 48 \<le> n \<and> n \<le> 57 then Some (n - 48) else None)"

fun digits_val :: "nat \<Rightarrow> string \<Rightarrow> nat option" where
  "digits_val acc [] = Some acc"
| "digits_val acc (c # cs) =
     (case digit_val c of None \<Rightarrow> None | Some d \<Rightarrow> digits_val (10 * acc + d) cs)"

definition parse_unsigned :: "string \<Rightarrow> real option" where
  "parse_unsigned s =
     (let ip = takeWhile (\<lambda>c. c \<noteq> CHR ''.'') s;
          rest = dropWhile (\<lambda>c. c \<noteq> CHR ''.'') s;
          fp = (case rest of [] \<Rightarrow> [] | _ # f \<Rightarrow> f)
      in if ip = [] \<or> (rest \<noteq> [] \<and> fp = []) then None
         else (case (digits_val 0 ip, digits_val 0 fp) of
                 (Some i, Some f) \<Rightarrow> Some (real i + real f / 10 ^ length fp)
               | _ \<Rightarrow> None))"

definition parse_decimal :: "string \<Rightarrow> real option" where
  "parse_decimal s =
     (case s of
        [] \<Rightarrow> None
      | c # cs \<Rightarrow> if c = CHR ''-'' then map_option uminus (parse_unsigned cs)
                 else parse_unsigned s)"

datatype error = IntCastingNaNError | IndexError

text \<open>
  \<open>Series.astype(int)\<close>: raises \<open>IntCastingNaNError\<close> (a \<open>ValueError\<close>) when the column
  holds a \<open>NaN\<close>; otherwise every value is truncated towards zero.
\<close>

definition trunc :: "real \<Rightarrow> int" where
  "trunc x = (if 0 \<le> x then \<lfloor>x\<rfloor> else \<lceil>x\<rceil>)"

definition astype_int :: "real option list \<Rightarrow> error + int list" where
  "astype_int col =
     (if None \<in> set col then Inl IntCastingNaNError else Inr (map (trunc \<circ> the) col))"

subsection \<open>Null-skipping aggregates\<close>

text \<open>The values of a column that are not missing, in order.\<close>

fun notna :: "'a option list \<Rightarrow> 'a list" where
  "notna [] = []"
| "notna (None # col) = notna col"
| "notna (Some v # col) = v # notna col"

text \<open>\<open>Series.min()\<close>: the least value that is not missing, \<open>NaN\<close> when there is none.\<close>

definition series_min :: "real option list \<Rightarrow> real option" where
  "series_min col = (case notna col of [] \<Rightarrow> None | v # vs \<Rightarrow> Some (fold min vs v))"

text \<open>\<open>Series.sum()\<close>: the sum of the values that are not missing, 0 when there is none.\<close>

definition series_sum :: "real option list \<Rightarrow> real" where
  "series_sum col = fold (\<lambda>v acc. acc + v) (notna col) 0"

text \<open>\<open>Series.mean()\<close>: the mean of the values that are not missing, \<open>NaN\<close> when there is none.\<close>

definition series_mean :: "real option list \<Rightarrow> real option" where
  "series_mean col =
     (let vs = notna col
      in if vs = [] then None else Some (fold (\<lambda>v acc. acc + v) vs 0 / real (length vs)))"

subsection \<open>Frame operations\<close>

text \<open>
  \<open>col == v\<close> gives a boolean column, \<open>&\<close> combines two of them row by row, and
  \<open>frame[mask]\<close> keeps the rows whose mask entry is true.
\<close>

definition eq_mask :: "('r \<Rightarrow> 'a) \<Rightarrow> 'a \<Rightarrow> 'r list \<Rightarrow> bool list" where
  "eq_mask col v frame = map (\<lambda>r. col r = v) frame"

definition and_mask :: "bool list \<Rightarrow> bool list \<Rightarrow> bool list" where
  "and_mask a b = map (\<lambda>(x, y). x \<and> y) (zip a b)"

definition select_rows :: "'r list \<Rightarrow> bool list \<Rightarrow> 'r list" where
  "select_rows frame msk = map fst (filter snd (zip frame msk))"

text \<open>
  \<open>drop_duplicates()\<close> and \<open>unique()\<close> keep the first occurrence of every value, in
  order of first appearance.
\<close>

fun drop_duplicates :: "'a list \<Rightarrow> 'a list" where
  "drop_duplicates [] = []"
| "drop_duplicates (x # xs) = x # drop_duplicates (filter (\<lambda>y. y \<noteq> x) xs)"

text \<open>
  \<open>left.merge(right, on=key)\<close>, an inner join: every left row, in order, paired with
  each right row of the same key; a left row without a partner is dropped.
\<close>

definition merge :: "('a \<Rightarrow> 'k) \<Rightarrow> ('b \<Rightarrow> 'k) \<Rightarrow> 'a list \<Rightarrow> 'b list \<Rightarrow> ('a \<times> 'b) list" where
  "merge kl kr left right =
     concat (map (\<lambda>l. map (Pair l) (filter (\<lambda>r. kr r = kl l) right)) left)"




text \<open>
  The frames that are a sorted arrangement of \<open>frame\<close>, whatever the routine:
  \<open>sort_values key frame out\<close> holds when \<open>out\<close> has the rows with a key in ascending
  order of the key, each as often as in \<open>frame\<close>, followed by the rows without a key in
  their order in \<open>frame\<close>.
\<close>

definition sort_values :: "('r \<Rightarrow> 'k::linorder option) \<Rightarrow> 'r list \<Rightarrow> 'r list \<Rightarrow> bool" where
  "sort_values key frame out =
     (let present = filter (\<lambda>r. key r \<noteq> None) frame;
          missing = filter (\<lambda>r. key r = None) frame;
          n = length present
      in mset (take n out) = mset present \<and>
         sorted (map (the \<circ> key) (take n out)) \<and>
         drop n out = missing)"

text \<open>The result a stable sorting algorithm would return, one of the admissible ones.\<close>

definition stable_sort_values :: "('r \<Rightarrow> 'k::linorder option) \<Rightarrow> 'r list \<Rightarrow> 'r list" where
  "stable_sort_values key frame =
     sort_key (the \<circ> key) (filter (\<lambda>r. key r \<noteq> None) frame) @ filter (\<lambda>r. key r = None) frame"

subsection \<open>Tables and views\<close>

record 'y race =
  race_raceId :: int
  race_year :: 'y
  race_round :: int
  race_circuitId :: int

record lap_time =
  lt_raceId :: int
  lt_driverId :: int
  lt_lap :: cell
  lt_milliseconds :: cell

record result =
  res_raceId :: int
  res_driverId :: int
  res_points :: cell

record driver =
  drv_driverId :: int
  drv_driverRef :: string

record circuit_src =
  src_circuitId :: int
  src_name :: string
  src_lat :: cell
  src_lng :: cell

record circuit =
  circ_circuitId :: int
  circ_circuitName :: string
  circ_lat :: cell
  circ_lng :: cell

record pit_stop =
  pit_raceId :: int
  pit_driverId :: int
  pit_stop :: cell
  pit_milliseconds :: cell

text \<open>What \<open>get_df\<close> delivers for the six names.\<close>

record source =
  get_races :: "cell race list"
  get_lap_times :: "lap_time list"
  get_results :: "result list"
  get_drivers :: "driver list"
  get_circuits :: "circuit_src list"
  get_pit_stops :: "pit_stop list"

text \<open>The dictionary \<open>T\<close>: \<open>year\<close> is an integer column, the circuit's \<open>name\<close> is renamed.\<close>

record tables =
  races :: "int race list"
  lap_times :: "lap_time list"
  results :: "result list"
  drivers :: "driver list"
  circuits :: "circuit list"
  pit_stops :: "pit_stop list"

definition load_tables :: "(string \<Rightarrow> real option) \<Rightarrow> source \<Rightarrow> error + tables" where
  "load_tables parse src =
     (case astype_int (map (to_numeric parse \<circ> race_year) (get_races src)) of
        Inl e \<Rightarrow> Inl e
      | Inr ys \<Rightarrow>
          Inr \<lparr> races = map (\<lambda>(r, y). \<lparr> race_raceId = race_raceId r, race_year = y,
                                        race_round = race_round r,
                                        race_circuitId = race_circuitId r \<rparr>)
                             (zip (get_races src) ys),
                lap_times = get_lap_times src,
                results = get_results src,
                drivers = get_drivers src,
                circuits = map (\<lambda>c. \<lparr> circ_circuitId = src_circuitId c,
                                      circ_circuitName = src_name c,
                                      circ_lat = src_lat c, circ_lng = src_lng c \<rparr>)
                               (get_circuits src),
                pit_stops = get_pit_stops src \<rparr>)"

text \<open>A row of \<open>MASTER\<close>.\<close>

record master =
  m_raceId :: int
  m_driverId :: int
  m_lap :: int
  m_milliseconds :: "real option"
  m_driverRef :: string
  m_year :: int
  m_round :: int
  m_circuitId :: int
  m_circuitName :: string
  m_lat :: cell
  m_lng :: cell
  m_lap_sec :: "real option"

definition make_master :: "(string \<Rightarrow> real option) \<Rightarrow> tables \<Rightarrow> error + master list" where
  "make_master parse T =
     (let m = merge (race_circuitId \<circ> snd) circ_circuitId
                (merge (lt_raceId \<circ> fst) race_raceId
                   (merge lt_driverId drv_driverId (lap_times T) (drivers T))
                   (races T))
                (circuits T)
      in case astype_int (map (\<lambda>(((l, d), r), c). to_numeric parse (lt_lap l)) m) of
           Inl e \<Rightarrow> Inl e
         | Inr laps \<Rightarrow>
             Inr (map (\<lambda>((((l, d), r), c), lap).
                        let ms = to_numeric parse (lt_milliseconds l)
                        in \<lparr> m_raceId = lt_raceId l, m_driverId = lt_driverId l, m_lap = lap,
                             m_milliseconds = ms, m_driverRef = drv_driverRef d,
                             m_year = race_year r, m_round = race_round r,
                             m_circuitId = race_circuitId r,
                             m_circuitName = circ_circuitName c,
                             m_lat = circ_lat c, m_lng = circ_lng c,
                             m_lap_sec = map_option (\<lambda>x. x / 1000) ms \<rparr>)
                      (zip m laps)))"

text \<open>A row of \<open>RESULTS\<close>.\<close>

record results_row =
  rv_raceId :: int
  rv_driverId :: int
  rv_points :: "real option"
  rv_driverRef :: string
  rv_year :: int
  rv_round :: int

definition make_results :: "(string \<Rightarrow> real option) \<Rightarrow> tables \<Rightarrow> results_row list" where
  "make_results parse T =
     map (\<lambda>((x, d), r).
            \<lparr> rv_raceId = res_raceId x, rv_driverId = res_driverId x,
              rv_points = to_numeric parse (res_points x),
              rv_driverRef = drv_driverRef d,
              rv_year = race_year r, rv_round = race_round r \<rparr>)
         (merge (res_raceId \<circ> fst) race_raceId
            (merge res_driverId drv_driverId (results T) (drivers T))
            (races T))"

subsection \<open>Selectors and the selection filter\<close>

text \<open>
  \<open>sorted(MASTER["year"].unique().tolist(), reverse=True)\<close> and
  \<open>sorted(MASTER.loc[MASTER["year"] == year, "driverRef"].unique().tolist())\<close>.
\<close>

definition years :: "master list \<Rightarrow> int list" where
  "years MASTER = rev (sort (drop_duplicates (map m_year MASTER)))"

definition drivers_of :: "master list \<Rightarrow> int \<Rightarrow> string list" where
  "drivers_of MASTER year =
     sort (drop_duplicates (map m_driverRef (select_rows MASTER (eq_mask m_year year MASTER))))"

text \<open>\<open>df = MASTER[(MASTER["year"] == year) & (MASTER["driverRef"] == driver)]\<close>\<close>

definition df :: "master list \<Rightarrow> int \<Rightarrow> string \<Rightarrow> master list" where
  "df MASTER year driver =
     select_rows MASTER
       (and_mask (eq_mask m_year year MASTER) (eq_mask m_driverRef driver MASTER))"

subsection \<open>Figures of the dashboard\<close>

text \<open>\<open>fastest_lap = df["lap_sec"].min()\<close>\<close>

definition fastest_lap :: "master list \<Rightarrow> real option" where
  "fastest_lap sub = series_min (map m_lap_sec sub)"

text \<open>
  \<open>pits = T["pit_stops"].merge(df[["raceId","driverId"]].drop_duplicates(),
  on=["raceId","driverId"])\<close>: the pit stops paired with the distinct
  \<open>(raceId, driverId)\<close> pairs of the subset.
\<close>

definition pits :: "pit_stop list \<Rightarrow> master list \<Rightarrow> (pit_stop \<times> int \<times> int) list" where
  "pits PIT sub =
     merge (\<lambda>p. (pit_raceId p, pit_driverId p)) id PIT
       (drop_duplicates (map (\<lambda>r. (m_raceId r, m_driverId r)) sub))"

text \<open>
  \<open>pits["milliseconds"] = pd.to_numeric(pits["milliseconds"], errors="coerce")\<close> and
  \<open>avg_pit = pits["milliseconds"].mean() / 1000 if not pits.empty else None\<close>.
  The outer \<open>None\<close> is Python's \<open>None\<close> (shown as N/A), \<open>Some None\<close> is the number
  \<open>NaN\<close> (shown as nan).
\<close>

definition avg_pit ::
  "(string \<Rightarrow> real option) \<Rightarrow> pit_stop list \<Rightarrow> master list \<Rightarrow> real option option" where
  "avg_pit parse PIT sub =
     (let p = pits PIT sub;
          ms = map (\<lambda>(x, k). to_numeric parse (pit_milliseconds x)) p
      in if p \<noteq> [] then Some (map_option (\<lambda>m. m / 1000) (series_mean ms)) else None)"

text \<open>\<open>RESULTS[(RESULTS["year"]==year)&(RESULTS["driverRef"]==driver)]\<close>\<close>

definition pts_df :: "results_row list \<Rightarrow> int \<Rightarrow> string \<Rightarrow> results_row list" where
  "pts_df RESULTS year driver =
     select_rows RESULTS
       (and_mask (eq_mask rv_year year RESULTS) (eq_mask rv_driverRef driver RESULTS))"

text \<open>\<open>pts = RESULTS[...]["points"].sum()\<close>\<close>

definition pts :: "results_row list \<Rightarrow> int \<Rightarrow> string \<Rightarrow> real" where
  "pts RESULTS year driver = series_sum (map rv_points (pts_df RESULTS year driver))"



text \<open>
  The points progression: when \<open>pts_df\<close> has rows,
  \<open>pts_df[["round","points"]].dropna().sort_values("round")\<close>; otherwise the frame
  stays empty.
\<close>

definition dropna :: "('a \<times> 'b option) list \<Rightarrow> ('a \<times> 'b option) list" where
  "dropna frame = filter (\<lambda>(a, b). b \<noteq> None) frame"

definition points_by_round ::
  "results_row list \<Rightarrow> int \<Rightarrow> string \<Rightarrow> (int \<times> real option) list \<Rightarrow> bool" where
  "points_by_round RESULTS year driver out =
     (let sel = pts_df RESULTS year driver
      in if sel = [] then out = []
         else sort_values (\<lambda>r. Some (fst r))
                (dropna (map (\<lambda>r. (rv_round r, rv_points r)) sel)) out)"

text \<open>
  \<open>map_df = df[["circuitName","lat","lng"]].drop_duplicates()\<close>, then both coordinates
  through \<open>to_numeric\<close>, then \<open>dropna(subset=["lat","lng"])\<close>.
\<close>

definition map_df ::
  "(string \<Rightarrow> real option) \<Rightarrow> master list \<Rightarrow> (string \<times> real option \<times> real option) list" where
  "map_df parse sub =
     filter (\<lambda>(c, la, lo). la \<noteq> None \<and> lo \<noteq> None)
       (map (\<lambda>(c, la, lo). (c, to_numeric parse la, to_numeric parse lo))
          (drop_duplicates (map (\<lambda>r. (m_circuitName r, m_lat r, m_lng r)) sub)))"

subsection \<open>One interaction\<close>

text \<open>
  One run of the script from its first call to the presentation layer (line 57) to its
  end: the calls it makes, in order, and how it ends. \<open>year\<close> and \<open>driver\<close> are what
  the two select boxes return; the presentation layer decides them, so they are inputs.
  The defaults \<open>years[0]\<close> and \<open>drivers[0]\<close> are evaluated before the select box is
  called and raise \<open>IndexError\<close> on an empty list. An alert keeps what its text is built
  from. \<open>raise SystemExit\<close> is the script's own way to stop; \<open>Raised\<close> is an exception
  nobody catches.
\<close>

datatype message = NoData string int | NoPitStopData | NoPointsData | NoLocationData

datatype chart =
  LapTimes | LapTimeDistribution | FastestPerCircuit | PitStopDurations | PointsByRound
  | CircuitsMap

datatype event =
  Sidebar
  | SelectSeason "int list"
  | SelectDriver "string list"
  | Alert message
  | Separator
  | Heading string
  | FastestLapText "real option"
  | AvgPitText "real option option"
  | PointsText real
  | Plotly chart

datatype outcome = Completed | SystemExit | Raised error

text \<open>Lines 74 to 200: the figures and charts for a subset \<open>d\<close> that is not empty.\<close>

definition figures ::
  "(string \<Rightarrow> real option) \<Rightarrow> results_row list \<Rightarrow> pit_stop list \<Rightarrow> int \<Rightarrow> string \<Rightarrow>
   master list \<Rightarrow> event list \<times> outcome" where
  "figures parse RESULTS PIT year driver d =
     (let p = pits PIT d;
          kpi = [Separator,
                 FastestLapText (fastest_lap d),
                 AvgPitText (avg_pit parse PIT d),
                 PointsText (pts RESULTS year driver),
                 Separator,
                 Plotly LapTimes,
                 Plotly LapTimeDistribution,
                 Plotly FastestPerCircuit,
                 Heading ''Pit-Stops Analysis''];
          stops = (if p = [] then Inr []
                   else astype_int (map (\<lambda>(x, k). to_numeric parse (pit_stop x)) p))
      in case stops of
           Inl e \<Rightarrow> (kpi, Raised e)
         | Inr _ \<Rightarrow>
             (kpi
              @ (if p = [] then [Alert NoPitStopData] else [Plotly PitStopDurations])
              @ [Heading ''Points Progression'']
              @ (if pts_df RESULTS year driver = [] then [Alert NoPointsData]
                 else [Plotly PointsByRound])
              @ [Heading ''Circuits Visited'']
              @ (if map_df parse d = [] then [Alert NoLocationData]
                 else [Plotly CircuitsMap]),
              Completed))"

text \<open>Lines 57 to 72, then the figures.\<close>

definition dashboard ::
  "(string \<Rightarrow> real option) \<Rightarrow> master list \<Rightarrow> results_row list \<Rightarrow> pit_stop list \<Rightarrow>
   int \<Rightarrow> string \<Rightarrow> event list \<times> outcome" where
  "dashboard parse MASTER RESULTS PIT year driver =
     (let top = [Sidebar, Heading ''F1 Deep-Dive Dashboard''];
          ys = years MASTER
      in if ys = [] then (top, Raised IndexError)
         else
           let ds = drivers_of MASTER year
           in if ds = [] then (top @ [SelectSeason ys], Raised IndexError)
              else
                let d = df MASTER year driver
                in if d = []
                   then (top @ [SelectSeason ys, SelectDriver ds, Alert (NoData driver year)],
                         SystemExit)
                   else
                     (case figures parse RESULTS PIT year driver d of
                        (evs, res) \<Rightarrow> (top @ [SelectSeason ys, SelectDriver ds] @ evs, res)))"

subsection \<open>Example data\<close>

text \<open>Rows for the closed examples: one lap, one pit stop, one result.\<close>

definition lap_row ::
  "int \<Rightarrow> string \<Rightarrow> int \<Rightarrow> string \<Rightarrow> cell \<Rightarrow> cell \<Rightarrow> real option \<Rightarrow> master" where
  "lap_row rid drv yr circ la lo ms =
     \<lparr> m_raceId = rid, m_driverId = 1, m_lap = 1, m_milliseconds = ms, m_driverRef = drv,
       m_year = yr, m_round = 1, m_circuitId = 1, m_circuitName = circ,
       m_lat = la, m_lng = lo, m_lap_sec = map_option (\<lambda>x. x / 1000) ms \<rparr>"

definition pit_row :: "int \<Rightarrow> int \<Rightarrow> cell \<Rightarrow> pit_stop" where
  "pit_row rid did ms =
     \<lparr> pit_raceId = rid, pit_driverId = did, pit_stop = Num 1, pit_milliseconds = ms \<rparr>"

definition result_row :: "string \<Rightarrow> int \<Rightarrow> int \<Rightarrow> real option \<Rightarrow> results_row" where
  "result_row drv yr rnd p =
     \<lparr> rv_raceId = rnd, rv_driverId = 1, rv_points = p, rv_driverRef = drv,
       rv_year = yr, rv_round = rnd \<rparr>"

text \<open>Season 2021 at Silverstone: three laps of one driver, one of another.\<close>

definition silverstone :: "master list" where
  "silverstone =
     [lap_row 1 ''max_verstappen'' 2021 ''Silverstone'' NA NA (Some 92100),
      lap_row 1 ''max_verstappen'' 2021 ''Silverstone'' NA NA (Some 91800),
      lap_row 1 ''hamilton'' 2021 ''Silverstone'' NA NA (Some 92000),
      lap_row 1 ''max_verstappen'' 2021 ''Silverstone'' NA NA (Some 93000)]"

text \<open>Results of that season; the third round has no points recorded.\<close>

definition season_results :: "results_row list" where
  "season_results =
     [result_row ''max_verstappen'' 2021 2 (Some 18),
      result_row ''hamilton'' 2021 1 (Some 18),
      result_row ''max_verstappen'' 2021 3 None,
      result_row ''max_verstappen'' 2021 1 (Some 25)]"

text \<open>
  Pit stops: two of race 1 and driver 1, one of them with a duration that is no number,
  and one of another race.
\<close>

definition box_stops :: "pit_stop list" where
  "box_stops =
     [pit_row 1 1 (Str ''23500''), pit_row 1 1 (Str ''unknown''), pit_row 2 1 (Num 30000)]"

text \<open>A pit-stop table whose only stop of race 1 and driver 1 has no readable duration.\<close>

definition unread_stops :: "pit_stop list" where
  "unread_stops = [pit_row 1 1 (Str ''unknown''), pit_row 2 1 (Num 30000)]"

text \<open>
  A view with one lap whose milliseconds were no number, so that its lap time is missing.
\<close>

definition no_time_laps :: "master list" where
  "no_time_laps = [lap_row 1 ''hamilton'' 2021 ''Monza'' NA NA None]"


text \<open>Laps at one circuit whose latitude is written in two ways in a text column.\<close>

definition monza_twice :: "master list" where
  "monza_twice =
     [lap_row 1 ''hamilton'' 2021 ''Monza'' (Str ''45.6'') (Str ''9.28'') (Some 90000),
      lap_row 2 ''hamilton'' 2021 ''Monza'' (Str ''45.60'') (Str ''9.28'') (Some 91000)]"

text \<open>A source whose races table has a year that is no number, the other tables empty.\<close>

definition bad_year_source :: source where
  "bad_year_source =
     \<lparr> get_races = [\<lparr> race_raceId = 1, race_year = Str ''unknown'', race_round = 1,
                        race_circuitId = 1 \<rparr>],
       get_lap_times = [], get_results = [], get_drivers = [], get_circuits = [],
       get_pit_stops = [] \<rparr>"

text \<open>Tables with one lap time whose lap number is missing.\<close>

definition bad_lap_tables :: tables where
  "bad_lap_tables =
     \<lparr> races = [\<lparr> race_raceId = 1, race_year = 2021, race_round = 1, race_circuitId = 1 \<rparr>],
       lap_times = [\<lparr> lt_raceId = 1, lt_driverId = 1, lt_lap = NA,
                       lt_milliseconds = Num 90000 \<rparr>],
       results = [],
       drivers = [\<lparr> drv_driverId = 1, drv_driverRef = ''hamilton'' \<rparr>],
       circuits = [\<lparr> circ_circuitId = 1, circ_circuitName = ''Monza'', circ_lat = NA,
                      circ_lng = NA \<rparr>],
       pit_stops = [] \<rparr>"

text \<open>The alerts among the events.\<close>

definition is_alert :: "event \<Rightarrow> bool" where
  "is_alert e = (case e of Alert _ \<Rightarrow> True | _ \<Rightarrow> False)"

text \<open>The events that show a figure or a chart.\<close>

definition is_metric_or_chart :: "event \<Rightarrow> bool" where
  "is_metric_or_chart e =
     (case e of
        FastestLapText _ \<Rightarrow> True
      | AvgPitText _ \<Rightarrow> True
      | PointsText _ \<Rightarrow> True
      | Plotly _ \<Rightarrow> True
      | _ \<Rightarrow> False)"

section \<open>Properties\<close>

subsection \<open>The selection filter\<close>

lemma select_rows_and_mask:
  "select_rows frame (and_mask (eq_mask c1 v1 frame) (eq_mask c2 v2 frame)) =
   filter (\<lambda>r. c1 r = v1 \<and> c2 r = v2) frame"
  by (induction frame) (simp_all add: select_rows_def and_mask_def eq_mask_def)

lemma select_rows_eq_mask:
  "select_rows frame (eq_mask c v frame) = filter (\<lambda>r. c r = v) frame"
  by (induction frame) (simp_all add: select_rows_def eq_mask_def)

lemma df_filter:
  "df MASTER year driver = filter (\<lambda>r. m_year r = year \<and> m_driverRef r = driver) MASTER"
  by (simp add: df_def select_rows_and_mask)

text \<open>
  C1. The selection filter returns exactly the rows of the view whose year and driverRef
  equal the selected ones, in the order of the view and as often as a linear scan finds
  them; for a pair that matches no row the result is the empty frame.
\<close>

theorem C1_filter_exact:
  "df view year driver = filter (\<lambda>r. m_year r = year \<and> m_driverRef r = driver) view \<and>
   set (df view year driver) = {r \<in> set view. m_year r = year \<and> m_driverRef r = driver} \<and>
   subseq (df view year driver) view \<and>
   length (df view year driver) =
     length (filter (\<lambda>r. m_year r = year \<and> m_driverRef r = driver) view) \<and>
   ((\<forall>r \<in> set view. \<not> (m_year r = year \<and> m_driverRef r = driver)) \<longrightarrow>
      df view year driver = [])"
  by (auto simp: df_filter)

text \<open>
  On the example: the three laps of the selected driver come back in their order, and a
  pair without rows gives the empty frame.
\<close>

theorem C1_filter_exact_witness:
  "df silverstone 2021 ''max_verstappen'' =
     [lap_row 1 ''max_verstappen'' 2021 ''Silverstone'' NA NA (Some 92100),
      lap_row 1 ''max_verstappen'' 2021 ''Silverstone'' NA NA (Some 91800),
      lap_row 1 ''max_verstappen'' 2021 ''Silverstone'' NA NA (Some 93000)] \<and>
   length (df silverstone 2021 ''max_verstappen'') = 3 \<and>
   df silverstone 2020 ''hamilton'' = []"
  using C1_filter_exact [of silverstone 2021 "''max_verstappen''"]
    C1_filter_exact [of silverstone 2020 "''hamilton''"]
  by (simp add: silverstone_def lap_row_def)

lemma set_drop_duplicates [simp]: "set (drop_duplicates xs) = set xs"
  by (induction xs rule: drop_duplicates.induct) auto

lemma distinct_drop_duplicates [simp]: "distinct (drop_duplicates xs)"
  by (induction xs rule: drop_duplicates.induct) auto

lemma years_set: "set (years MASTER) = m_year ` set MASTER"
  by (simp add: years_def)

lemma drivers_of_set:
  "set (drivers_of MASTER year) = m_driverRef ` {r \<in> set MASTER. m_year r = year}"
  by (auto simp add: drivers_of_def select_rows_eq_mask)

subsection \<open>The empty selection\<close>

lemma years_Nil: "years MASTER = [] \<longleftrightarrow> MASTER = []"
proof -
  have "years MASTER = [] \<longleftrightarrow> set (years MASTER) = {}"
    by simp
  then show ?thesis
    by (simp add: years_set)
qed

lemma drivers_of_Nil:
  "drivers_of MASTER year = [] \<longleftrightarrow> (\<forall>r \<in> set MASTER. m_year r \<noteq> year)"
proof -
  have "drivers_of MASTER year = [] \<longleftrightarrow> set (drivers_of MASTER year) = {}"
    by simp
  then show ?thesis
    by (auto simp: drivers_of_set)
qed

lemma drivers_of_years: "drivers_of MASTER year \<noteq> [] \<Longrightarrow> years MASTER \<noteq> []"
  by (auto simp: drivers_of_Nil years_Nil)

text \<open>Before the filter is reached: the two defaults.\<close>

lemma dashboard_no_years:
  "years MASTER = [] \<Longrightarrow>
   dashboard parse MASTER RESULTS PIT year driver =
     ([Sidebar, Heading ''F1 Deep-Dive Dashboard''], Raised IndexError)"
  by (simp add: dashboard_def)

lemma dashboard_no_drivers:
  "years MASTER \<noteq> [] \<Longrightarrow> drivers_of MASTER year = [] \<Longrightarrow>
   dashboard parse MASTER RESULTS PIT year driver =
     ([Sidebar, Heading ''F1 Deep-Dive Dashboard'', SelectSeason (years MASTER)],
      Raised IndexError)"
  by (simp add: dashboard_def)

text \<open>
  C2. The filter is reached when the season the select box returned has rows, so that the
  driver list has a first entry. When the filter is reached and the filtered subset of
  the selected year and driver is empty, the run shows the side bar, the title and the two
  select boxes and then one alert, which names the driver and the season (every alert of
  the script has level warning). It is the only alert; no figure is computed and no chart
  is drawn; and the script stops by its own \<open>SystemExit\<close>, not by a raised error.
\<close>

theorem C2_empty_subset_warns_and_stops:
  "drivers_of MASTER year \<noteq> [] \<and> df MASTER year driver = [] \<longrightarrow>
     fst (dashboard parse MASTER RESULTS PIT year driver) =
       [Sidebar, Heading ''F1 Deep-Dive Dashboard'', SelectSeason (years MASTER),
        SelectDriver (drivers_of MASTER year), Alert (NoData driver year)] \<and>
     filter is_alert (fst (dashboard parse MASTER RESULTS PIT year driver)) =
       [Alert (NoData driver year)] \<and>
     (\<forall>e \<in> set (fst (dashboard parse MASTER RESULTS PIT year driver)).
        \<not> is_metric_or_chart e) \<and>
     snd (dashboard parse MASTER RESULTS PIT year driver) = SystemExit"
proof
  assume a: "drivers_of MASTER year \<noteq> [] \<and> df MASTER year driver = []"
  then have y: "years MASTER \<noteq> []"
    using drivers_of_years [of MASTER year] by blast
  have "dashboard parse MASTER RESULTS PIT year driver =
     ([Sidebar, Heading ''F1 Deep-Dive Dashboard'', SelectSeason (years MASTER),
       SelectDriver (drivers_of MASTER year), Alert (NoData driver year)], SystemExit)"
    using a y by (simp add: dashboard_def)
  then show "fst (dashboard parse MASTER RESULTS PIT year driver) =
       [Sidebar, Heading ''F1 Deep-Dive Dashboard'', SelectSeason (years MASTER),
        SelectDriver (drivers_of MASTER year), Alert (NoData driver year)] \<and>
     filter is_alert (fst (dashboard parse MASTER RESULTS PIT year driver)) =
       [Alert (NoData driver year)] \<and>
     (\<forall>e \<in> set (fst (dashboard parse MASTER RESULTS PIT year driver)).
        \<not> is_metric_or_chart e) \<and>
     snd (dashboard parse MASTER RESULTS PIT year driver) = SystemExit"
    by (simp add: is_alert_def is_metric_or_chart_def)
qed

text \<open>
  On the example: the season 2021 has rows, and the select box returns a driver that has
  none in it.
\<close>

theorem C2_empty_subset_warns_and_stops_witness:
  "drivers_of silverstone 2021 = [''hamilton'', ''max_verstappen''] \<and>
   df silverstone 2021 ''nobody'' = [] \<and>
   dashboard parse_decimal silverstone [] [] 2021 ''nobody'' =
     ([Sidebar, Heading ''F1 Deep-Dive Dashboard'', SelectSeason [2021],
       SelectDriver [''hamilton'', ''max_verstappen''], Alert (NoData ''nobody'' 2021)],
      SystemExit)"
proof -
  have y: "years silverstone = [2021]"
    by (simp add: years_def silverstone_def lap_row_def)
  have d: "drivers_of silverstone 2021 = [''hamilton'', ''max_verstappen'']"
    by (simp add: drivers_of_def select_rows_eq_mask silverstone_def lap_row_def)
  have h: "df silverstone 2021 ''nobody'' = []"
    by (simp add: df_filter silverstone_def lap_row_def)
  from y d h
    C2_empty_subset_warns_and_stops [of silverstone 2021 "''nobody''" parse_decimal "[]" "[]"]
  show ?thesis
    by (simp add: prod_eq_iff)
qed

text \<open>
  C10. A year taken from the year selector and a driver taken from the driver selector of
  that year always select at least one row, so the warning branch is not taken: the
  interaction does not emit the no-data alert and does not stop by \<open>SystemExit\<close>.
\<close>

theorem C10_enumerated_selection_nonempty:
  "year \<in> set (years MASTER) \<and> driver \<in> set (drivers_of MASTER year) \<longrightarrow>
     df MASTER year driver \<noteq> [] \<and>
     Alert (NoData driver year) \<notin> set (fst (dashboard parse MASTER RESULTS PIT year driver)) \<and>
     snd (dashboard parse MASTER RESULTS PIT year driver) \<noteq> SystemExit"
proof
  assume a: "year \<in> set (years MASTER) \<and> driver \<in> set (drivers_of MASTER year)"
  then obtain r where "r \<in> set MASTER" "m_year r = year" "m_driverRef r = driver"
    by (auto simp: drivers_of_set)
  then have ne: "df MASTER year driver \<noteq> []"
    by (auto simp: df_filter filter_empty_conv)
  have ys: "years MASTER \<noteq> []" and ds: "drivers_of MASTER year \<noteq> []"
    using a by auto
  obtain evs res where f: "figures parse RESULTS PIT year driver (df MASTER year driver) = (evs, res)"
    by (cases "figures parse RESULTS PIT year driver (df MASTER year driver)")
  have fa: "Alert (NoData driver year) \<notin> set evs" and fr: "res \<noteq> SystemExit"
    using f by (auto simp: figures_def Let_def split: sum.splits if_splits)
  have "dashboard parse MASTER RESULTS PIT year driver =
          ([Sidebar, Heading ''F1 Deep-Dive Dashboard''] @
           [SelectSeason (years MASTER), SelectDriver (drivers_of MASTER year)] @ evs, res)"
    using ne ys ds f by (simp add: dashboard_def)
  then show "df MASTER year driver \<noteq> [] \<and>
     Alert (NoData driver year) \<notin> set (fst (dashboard parse MASTER RESULTS PIT year driver)) \<and>
     snd (dashboard parse MASTER RESULTS PIT year driver) \<noteq> SystemExit"
    using ne fa fr by simp
qed

text \<open>On the example: the selectors offer 2021 and, for 2021, both drivers.\<close>

theorem C10_enumerated_selection_nonempty_witness:
  "years silverstone = [2021] \<and>
   drivers_of silverstone 2021 = [''hamilton'', ''max_verstappen''] \<and>
   df silverstone 2021 ''hamilton'' \<noteq> [] \<and>
   snd (dashboard parse_decimal silverstone [] [] 2021 ''hamilton'') \<noteq> SystemExit"
proof -
  have y: "years silverstone = [2021]"
    by (simp add: years_def silverstone_def lap_row_def)
  have d: "drivers_of silverstone 2021 = [''hamilton'', ''max_verstappen'']"
    by (simp add: drivers_of_def select_rows_eq_mask silverstone_def lap_row_def)
  from y d
    C10_enumerated_selection_nonempty [of 2021 silverstone "''hamilton''" parse_decimal "[]" "[]"]
  show ?thesis
    by simp
qed

subsection \<open>Aggregates that skip missing values\<close>

lemma set_notna: "set (notna col) = {v. Some v \<in> set col}"
  by (induction col rule: notna.induct) auto

lemma fold_add_sum_list: "fold (\<lambda>v acc. acc + v) vs (a::real) = a + sum_list vs"
  by (induction vs arbitrary: a) simp_all

lemma series_sum_sum_list: "series_sum col = sum_list (notna col)"
  by (simp add: series_sum_def fold_add_sum_list)

lemma sum_list_notna:
  "sum_list (notna (map f xs)) = (\<Sum>r\<leftarrow>xs. case f r of None \<Rightarrow> 0 | Some p \<Rightarrow> (p::real))"
  by (induction xs) (auto split: option.splits)

lemma series_min_Min:
  "series_min col = (if notna col = [] then None else Some (Min (set (notna col))))"
  by (cases "notna col") (simp_all add: series_min_def Min.set_eq_fold [symmetric])

lemma pts_df_filter:
  "pts_df RESULTS year driver =
   filter (\<lambda>r. rv_year r = year \<and> rv_driverRef r = driver) RESULTS"
  by (simp add: pts_df_def select_rows_and_mask)

text \<open>
  C6. The total is the sum of the points of the result rows of the selected year and
  driver, a row with missing points counting as nothing; when no row matches it is 0.
\<close>

theorem C6_total_points:
  "pts RESULTS year driver =
     (\<Sum>r\<leftarrow>filter (\<lambda>r. rv_year r = year \<and> rv_driverRef r = driver) RESULTS.
        case rv_points r of None \<Rightarrow> 0 | Some p \<Rightarrow> p) \<and>
   (filter (\<lambda>r. rv_year r = year \<and> rv_driverRef r = driver) RESULTS = [] \<longrightarrow>
      pts RESULTS year driver = 0)"
  by (simp add: pts_def series_sum_sum_list sum_list_notna pts_df_filter)

text \<open>On the example: 18 + 25 with the missing round skipped, and 0 for a season without rows.\<close>

theorem C6_total_points_witness:
  "pts season_results 2021 ''max_verstappen'' = 43 \<and>
   filter (\<lambda>r. rv_year r = 2020 \<and> rv_driverRef r = ''max_verstappen'') season_results = [] \<and>
   pts season_results 2020 ''max_verstappen'' = 0"
  using C6_total_points [of season_results 2021 "''max_verstappen''"]
    C6_total_points [of season_results 2020 "''max_verstappen''"]
  by (simp add: season_results_def result_row_def)

text \<open>
  C7, as stated, fails: a filtered subset can have rows and no lap time, when the
  milliseconds of its laps were no numbers. Then there is no minimum to return, and
  \<open>min()\<close> gives \<open>NaN\<close>, as it does on the empty subset.
\<close>

theorem C7_fastest_lap_counterexample:
  "df no_time_laps 2021 ''hamilton'' = [lap_row 1 ''hamilton'' 2021 ''Monza'' NA NA None] \<and>
   fastest_lap (df no_time_laps 2021 ''hamilton'') = None"
  by (simp add: df_filter no_time_laps_def lap_row_def fastest_lap_def series_min_def)

text \<open>
  C7, amended. For every filtered subset with at least one lap time, the fastest lap is
  the least of the lap times that are present; on a subset without any lap time, the
  empty subset among them, it is \<open>NaN\<close>. The function has no failing case.
\<close>

theorem C7_fastest_lap:
  "fastest_lap [] = None \<and>
   ({v. \<exists>r \<in> set sub. m_lap_sec r = Some v} \<noteq> {} \<longrightarrow>
      fastest_lap sub = Some (Min {v. \<exists>r \<in> set sub. m_lap_sec r = Some v})) \<and>
   ({v. \<exists>r \<in> set sub. m_lap_sec r = Some v} = {} \<longrightarrow> fastest_lap sub = None)"
proof -
  have V: "set (notna (map m_lap_sec sub)) = {v. \<exists>r \<in> set sub. m_lap_sec r = Some v}"
    by (force simp: set_notna image_iff)
  have e: "fastest_lap [] = None"
    by (simp add: fastest_lap_def series_min_def)
  have "notna (map m_lap_sec sub) = [] \<longleftrightarrow> {v. \<exists>r \<in> set sub. m_lap_sec r = Some v} = {}"
    using V by (metis set_empty)
  then show ?thesis
    using e V by (simp add: fastest_lap_def series_min_Min)
qed

lemma lap_secs_silverstone:
  "{v. \<exists>r \<in> set (df silverstone 2021 ''max_verstappen''). m_lap_sec r = Some v} =
   {92.1, 91.8, 93}"
  by (auto simp: df_filter silverstone_def lap_row_def)

text \<open>
  On the examples: lap times of 92.1, 91.8 and 93.0 seconds, an empty subset, and a subset
  of one lap without lap time.
\<close>

theorem C7_fastest_lap_witness:
  "fastest_lap (df silverstone 2021 ''max_verstappen'') = Some 91.8 \<and>
   fastest_lap (df silverstone 2020 ''hamilton'') = None \<and>
   fastest_lap no_time_laps = None"
proof -
  have nt: "{v. \<exists>r \<in> set no_time_laps. m_lap_sec r = Some v} = {}"
    by (simp add: no_time_laps_def lap_row_def)
  have c: "fastest_lap no_time_laps = None"
    using C7_fastest_lap [of no_time_laps] unfolding nt by simp
  have em: "df silverstone 2020 ''hamilton'' = []"
    by (simp add: df_filter silverstone_def lap_row_def)
  have "fastest_lap (df silverstone 2021 ''max_verstappen'') = Some (Min {92.1, 91.8, 93})"
    using C7_fastest_lap [of "df silverstone 2021 ''max_verstappen''"]
    unfolding lap_secs_silverstone by simp
  then have a: "fastest_lap (df silverstone 2021 ''max_verstappen'') = Some 91.8"
    by simp
  have b: "fastest_lap (df silverstone 2020 ''hamilton'') = None"
    using C7_fastest_lap [of "df silverstone 2020 ''hamilton''"] unfolding em by simp
  show ?thesis
    using a b c by simp
qed

subsection \<open>The average pit stop\<close>

lemma filter_eq_distinct:
  "distinct R \<Longrightarrow> filter (\<lambda>r. r = k) R = (if k \<in> set R then [k] else [])"
  by (induction R) auto

lemma merge_id_distinct:
  "distinct R \<Longrightarrow> map fst (merge kl id L R) = filter (\<lambda>l. kl l \<in> set R) L"
  by (induction L) (simp_all add: merge_def filter_eq_distinct)

lemma pits_rows:
  "map fst (pits PIT sub) =
   filter (\<lambda>x. (pit_raceId x, pit_driverId x) \<in> (\<lambda>r. (m_raceId r, m_driverId r)) ` set sub) PIT"
  by (simp add: pits_def merge_id_distinct)

lemma sum_list_div: "sum_list (map (\<lambda>v. v / c) vs) = sum_list vs / (c::real)"
  by (induction vs) (simp_all add: add_divide_distrib)

text \<open>
  C4, as stated, fails: the claim knows two results, the mean over the joined rows and the
  missing value shown as N/A when no row is joined. With the pit stop of race 1 and
  driver 1 joined and its duration no number, the result is neither: it is the number
  \<open>NaN\<close>, since the script tests whether \<open>pits\<close> has rows, not whether it has durations.
\<close>

theorem C4_avg_pit_counterexample:
  "pits unread_stops (df silverstone 2021 ''max_verstappen'') \<noteq> [] \<and>
   avg_pit parse_decimal unread_stops (df silverstone 2021 ''max_verstappen'') = Some None"
  by (simp add: avg_pit_def pits_def merge_def unread_stops_def pit_row_def df_filter
      silverstone_def lap_row_def to_numeric_def parse_decimal_def parse_unsigned_def
      digit_val_def series_mean_def)

text \<open>
  C4, amended. The joined rows are the pit stops whose \<open>(raceId, driverId)\<close> pair occurs
  in the subset. The result is \<open>None\<close> (N/A) exactly when no row is joined. When rows are
  joined, it is the arithmetic mean of milliseconds/1000 over the joined rows whose
  milliseconds are a number, and the number \<open>NaN\<close> when none of them is.
\<close>

theorem C4_avg_pit:
  "(let J = filter (\<lambda>x. (pit_raceId x, pit_driverId x) \<in>
                          (\<lambda>r. (m_raceId r, m_driverId r)) ` set sub) PIT;
        vs = notna (map (\<lambda>x. to_numeric parse (pit_milliseconds x)) J)
    in map fst (pits PIT sub) = J \<and>
       (avg_pit parse PIT sub = None \<longleftrightarrow> J = []) \<and>
       (J \<noteq> [] \<and> vs \<noteq> [] \<longrightarrow>
          avg_pit parse PIT sub =
            Some (Some (sum_list (map (\<lambda>v. v / 1000) vs) / real (length vs)))) \<and>
       (J \<noteq> [] \<and> vs = [] \<longrightarrow> avg_pit parse PIT sub = Some None))"
proof -
  define J where "J = filter (\<lambda>x. (pit_raceId x, pit_driverId x) \<in>
                                 (\<lambda>r. (m_raceId r, m_driverId r)) ` set sub) PIT"
  define vs where "vs = notna (map (\<lambda>x. to_numeric parse (pit_milliseconds x)) J)"
  have rows: "map fst (pits PIT sub) = J"
    unfolding J_def by (rule pits_rows)
  have ms: "map (\<lambda>(x, k). to_numeric parse (pit_milliseconds x)) (pits PIT sub) =
            map (\<lambda>x. to_numeric parse (pit_milliseconds x)) J"
    unfolding rows [symmetric] by (simp add: case_prod_unfold comp_def)
  have ne: "pits PIT sub = [] \<longleftrightarrow> J = []"
    using rows by (metis map_is_Nil_conv)
  have "map fst (pits PIT sub) = J \<and>
       (avg_pit parse PIT sub = None \<longleftrightarrow> J = []) \<and>
       (J \<noteq> [] \<and> vs \<noteq> [] \<longrightarrow>
          avg_pit parse PIT sub =
            Some (Some (sum_list (map (\<lambda>v. v / 1000) vs) / real (length vs)))) \<and>
       (J \<noteq> [] \<and> vs = [] \<longrightarrow> avg_pit parse PIT sub = Some None)"
    using rows ne
    by (simp add: avg_pit_def Let_def ms series_mean_def fold_add_sum_list sum_list_div
        vs_def [symmetric])
  then show ?thesis
    unfolding J_def vs_def Let_def .
qed

text \<open>
  On the example: two stops are joined, one duration is a number, and the mean is 23.5
  seconds; without any pit stop the result is \<open>None\<close>; with one joined stop of
  unreadable duration it is \<open>NaN\<close>.
\<close>

theorem C4_avg_pit_witness:
  "map fst (pits box_stops (df silverstone 2021 ''max_verstappen'')) =
     [pit_row 1 1 (Str ''23500''), pit_row 1 1 (Str ''unknown'')] \<and>
   notna (map (\<lambda>x. to_numeric parse_decimal (pit_milliseconds x))
            [pit_row 1 1 (Str ''23500''), pit_row 1 1 (Str ''unknown'')]) = [23500] \<and>
   avg_pit parse_decimal box_stops (df silverstone 2021 ''max_verstappen'') = Some (Some 23.5) \<and>
   avg_pit parse_decimal [] (df silverstone 2021 ''max_verstappen'') = None \<and>
   map fst (pits unread_stops (df silverstone 2021 ''max_verstappen'')) =
     [pit_row 1 1 (Str ''unknown'')] \<and>
   avg_pit parse_decimal unread_stops (df silverstone 2021 ''max_verstappen'') = Some None"
  using C4_avg_pit [of "df silverstone 2021 ''max_verstappen''" box_stops parse_decimal]
    C4_avg_pit [of "df silverstone 2021 ''max_verstappen''" "[]" parse_decimal]
    C4_avg_pit [of "df silverstone 2021 ''max_verstappen''" unread_stops parse_decimal]
  by (simp add: Let_def box_stops_def unread_stops_def pit_row_def df_filter silverstone_def
      lap_row_def
      to_numeric_def parse_decimal_def parse_unsigned_def digit_val_def)

subsection \<open>Sorted frames\<close>

lemma sort_values_parts:
  assumes "sort_values key frame out"
  defines "n \<equiv> length (filter (\<lambda>r. key r \<noteq> None) frame)"
  shows "mset (take n out) = mset (filter (\<lambda>r. key r \<noteq> None) frame)"
    and "sorted (map (the \<circ> key) (take n out))"
    and "drop n out = filter (\<lambda>r. key r = None) frame"
  using assms by (simp_all add: sort_values_def Let_def)

lemma sort_values_mset:
  assumes "sort_values key frame out"
  shows "mset out = mset frame"
proof -
  define n where "n = length (filter (\<lambda>r. key r \<noteq> None) frame)"
  have "mset out = mset (take n out) + mset (drop n out)"
    by (metis append_take_drop_id mset_append)
  also have "\<dots> = mset (filter (\<lambda>r. key r \<noteq> None) frame) +
                   mset (filter (\<lambda>r. key r = None) frame)"
    using sort_values_parts [OF assms] by (simp add: n_def)
  also have "\<dots> = mset frame"
    by (induction frame) simp_all
  finally show ?thesis .
qed

lemma sort_values_stable: "sort_values key frame (stable_sort_values key frame)"
  by (simp add: sort_values_def stable_sort_values_def Let_def)

lemma sort_values_all_present:
  assumes "\<forall>r \<in> set frame. key r \<noteq> None" and "sort_values key frame out"
  shows "sorted (map (the \<circ> key) out)"
proof -
  have f: "filter (\<lambda>r. key r \<noteq> None) frame = frame"
    using assms(1) by (simp add: filter_id_conv)
  have "length out = length frame"
    using sort_values_mset [OF assms(2)] by (metis size_mset)
  then have "take (length (filter (\<lambda>r. key r \<noteq> None) frame)) out = out"
    unfolding f by simp
  then show ?thesis
    using sort_values_parts(2) [OF assms(2)] by (simp only:)
qed





subsection \<open>Points by round\<close>

text \<open>
  C8. Every admissible value of the points progression holds the \<open>(round, points)\<close>
  pairs of the result rows of the selected year and driver, each as often as it occurs,
  with exactly the pairs of missing points left out, in ascending order of the round; and
  there is such a value.
\<close>

theorem C8_points_by_round:
  "points_by_round RESULTS year driver
     (stable_sort_values (\<lambda>r. Some (fst r))
        (dropna (map (\<lambda>r. (rv_round r, rv_points r))
                   (filter (\<lambda>r. rv_year r = year \<and> rv_driverRef r = driver) RESULTS)))) \<and>
   (points_by_round RESULTS year driver out \<longrightarrow>
      sorted (map fst out) \<and>
      mset out = mset (filter (\<lambda>(r, p). p \<noteq> None)
                        (map (\<lambda>r. (rv_round r, rv_points r))
                           (filter (\<lambda>r. rv_year r = year \<and> rv_driverRef r = driver) RESULTS))))"
proof (cases "pts_df RESULTS year driver = []")
  case True
  then show ?thesis
    by (simp add: points_by_round_def pts_df_filter [symmetric] stable_sort_values_def dropna_def)
next
  case False
  let ?frame = "dropna (map (\<lambda>r. (rv_round r, rv_points r)) (pts_df RESULTS year driver))"
  have a: "points_by_round RESULTS year driver (stable_sort_values (\<lambda>r. Some (fst r)) ?frame)"
    using False by (simp add: points_by_round_def sort_values_stable)
  have b: "sorted (map fst out) \<and> mset out = mset ?frame"
    if "points_by_round RESULTS year driver out"
  proof -
    from that False have sv: "sort_values (\<lambda>r. Some (fst r)) ?frame out"
      by (simp add: points_by_round_def)
    have "sorted (map (the \<circ> (\<lambda>r. Some (fst r))) out)"
      by (rule sort_values_all_present [OF _ sv]) simp
    then have "sorted (map fst out)"
      by (simp add: comp_def)
    then show ?thesis
      using sort_values_mset [OF sv] by simp
  qed
  show ?thesis
    using a b by (simp add: pts_df_filter dropna_def)
qed

text \<open>On the example: rounds 2, 3 (no points) and 1 give rounds 1 and 2.\<close>

theorem C8_points_by_round_witness:
  "points_by_round season_results 2021 ''max_verstappen'' [(1, Some 25), (2, Some 18)] \<and>
   sorted (map fst [(1::int, Some 25), (2, Some (18::real))]) \<and>
   mset [(1, Some 25), (2, Some 18)] =
     mset (filter (\<lambda>(r, p). p \<noteq> None)
             (map (\<lambda>r. (rv_round r, rv_points r))
                (filter (\<lambda>r. rv_year r = 2021 \<and> rv_driverRef r = ''max_verstappen'')
                   season_results)))"
proof -
  have h: "points_by_round season_results 2021 ''max_verstappen'' [(1, Some 25), (2, Some 18)]"
    by (simp add: points_by_round_def pts_df_filter season_results_def result_row_def
        dropna_def sort_values_def)
  from h C8_points_by_round [of season_results 2021 "''max_verstappen''"
      "[(1, Some 25), (2, Some 18)]"]
  show ?thesis
    by simp
qed

subsection \<open>Fastest lap per circuit\<close>


















subsection \<open>Numeric coercion\<close>

lemma to_numeric_unparsable: "parse s = None \<Longrightarrow> to_numeric parse (Str s) = None"
  by (simp add: to_numeric_def)

lemma load_tables_raises:
  "None \<in> set (map (to_numeric parse \<circ> race_year) (get_races src)) \<Longrightarrow>
   load_tables parse src = Inl IntCastingNaNError"
  by (simp add: load_tables_def astype_int_def)

lemma parse_decimal_unknown: "parse_decimal ''unknown'' = None"
  by (simp add: parse_decimal_def parse_unsigned_def digit_val_def)

lemma make_master_raises_on_missing_lap:
  "make_master parse_decimal bad_lap_tables = Inl IntCastingNaNError"
  by (simp add: make_master_def bad_lap_tables_def merge_def astype_int_def to_numeric_def)

text \<open>
  C3. The coercion of milliseconds and points maps what is no number to \<open>NaN\<close> and has no
  failing case. The coercion of \<open>year\<close> does the same and then casts the column with
  \<open>astype(int)\<close>, which raises on \<open>NaN\<close>: for a races table with a year that is no
  number, \<open>load_tables\<close> ends with \<open>IntCastingNaNError\<close> instead of a missing value. The
  lap column of \<open>make_master\<close> is cast in the same way.
\<close>

theorem C3_unparsable_year_raises:
  "to_numeric parse_decimal (Str ''unknown'') = None \<and>
   load_tables parse_decimal bad_year_source = Inl IntCastingNaNError"
  by (simp add: load_tables_def bad_year_source_def astype_int_def to_numeric_def
      parse_decimal_unknown)

subsection \<open>Circuits on the map\<close>

lemma map_df_numeric:
  "(c, la, lo) \<in> set (map_df parse sub) \<Longrightarrow> la \<noteq> None \<and> lo \<noteq> None"
  by (auto simp: map_df_def)

text \<open>
  C9. The script removes duplicates before it coerces the coordinates. Two rows of one
  circuit whose latitude is written as 45.6 and as 45.60 in a text column are different
  before the coercion and equal after it, so the result holds the same triple twice.
\<close>

theorem C9_duplicate_triples:
  "map_df parse_decimal monza_twice =
     [(''Monza'', Some 45.6, Some 9.28), (''Monza'', Some 45.6, Some 9.28)] \<and>
   \<not> distinct (map_df parse_decimal monza_twice)"
  by (simp add: map_df_def monza_twice_def lap_row_def to_numeric_def parse_decimal_def
      parse_unsigned_def digit_val_def del: not_None_eq)

end
